theory Spec2Isabelle
  imports Complex_Main
begin

section \<open>Loading the NASA Li-ion battery data set: a model of \<open>read_nasa.py\<close>\<close>

text \<open>
  The module reads one MATLAB file per battery, extracts the metadata of every cycle,
  turns every cycle into a table and stacks the tables. The model follows the source
  function by function. Every Python exception is a value of \<open>error\<close>; a function that
  can raise returns \<open>error + 'a\<close>, with \<open>Inl\<close> for the exception.

  MATLAB doubles are modelled as exact rationals: the model has no rounding error, no
  NaN and no infinity.
\<close>

subsection \<open>Exceptions and indexing\<close>

datatype error =
    IndexError
  | KeyError string
  | ValueError string
  | LoadError string

definition ebind :: "error + 'a \<Rightarrow> ('a \<Rightarrow> error + 'b) \<Rightarrow> error + 'b" where
  "ebind m f = (case m of Inl e \<Rightarrow> Inl e | Inr x \<Rightarrow> f x)"

text \<open>A comprehension whose body can raise: the first exception, in list order, wins.\<close>

fun emap :: "('a \<Rightarrow> error + 'b) \<Rightarrow> 'a list \<Rightarrow> error + 'b list" where
  "emap f [] = Inr []"
| "emap f (x # xs) =
     (case f x of
        Inl e \<Rightarrow> Inl e
      | Inr y \<Rightarrow> (case emap f xs of Inl e \<Rightarrow> Inl e | Inr ys \<Rightarrow> Inr (y # ys)))"

text \<open>
  \<open>xs[i]\<close> on a Python list or on the first axis of a numpy array: a negative index
  counts from the end, an index out of range raises IndexError.
\<close>

definition py_index :: "'a list \<Rightarrow> int \<Rightarrow> error + 'a" where
  "py_index xs i =
     (if 0 \<le> i \<and> i < int (length xs) then Inr (xs ! nat i)
      else if i < 0 \<and> - int (length xs) \<le> i then Inr (xs ! nat (int (length xs) + i))
      else Inl IndexError)"

text \<open>\<open>int(x)\<close> on a float truncates towards zero.\<close>

definition py_int :: "rat \<Rightarrow> int" where
  "py_int x = (if 0 \<le> x then \<lfloor>x\<rfloor> else \<lceil>x\<rceil>)"

subsection \<open>\<open>datetime.datetime\<close>\<close>

text \<open>
  The constructor of the standard library checks every component against its range and
  raises ValueError otherwise. The sub-second part of a datetime is its \<open>microsecond\<close>
  field, a count of millionths of a second.
\<close>

record datetime =
  year :: int
  month :: int
  day :: int
  hour :: int
  minute :: int
  second :: int
  microsecond :: int

definition is_leap :: "int \<Rightarrow> bool" where
  "is_leap y = (y mod 4 = 0 \<and> (y mod 100 \<noteq> 0 \<or> y mod 400 = 0))"

definition days_in_month :: "int \<Rightarrow> int \<Rightarrow> int" where
  "days_in_month y m =
     (if m = 2 then (if is_leap y then 29 else 28)
      else if m = 4 \<or> m = 6 \<or> m = 9 \<or> m = 11 then 30
      else 31)"

definition datetime_new ::
  "int \<Rightarrow> int \<Rightarrow> int \<Rightarrow> int \<Rightarrow> int \<Rightarrow> int \<Rightarrow> int \<Rightarrow> error + datetime" where
  "datetime_new y mo d h mi s us =
     (if \<not> (1 \<le> y \<and> y \<le> 9999) then Inl (ValueError ''year is out of range'')
      else if \<not> (1 \<le> mo \<and> mo \<le> 12) then Inl (ValueError ''month must be in 1..12'')
      else if \<not> (1 \<le> d \<and> d \<le> days_in_month y mo)
        then Inl (ValueError ''day is out of range for month'')
      else if \<not> (0 \<le> h \<and> h \<le> 23) then Inl (ValueError ''hour must be in 0..23'')
      else if \<not> (0 \<le> mi \<and> mi \<le> 59) then Inl (ValueError ''minute must be in 0..59'')
      else if \<not> (0 \<le> s \<and> s \<le> 59) then Inl (ValueError ''second must be in 0..59'')
      else if \<not> (0 \<le> us \<and> us \<le> 999999)
        then Inl (ValueError ''microsecond must be in 0..999999'')
      else Inr \<lparr>year = y, month = mo, day = d, hour = h, minute = mi, second = s,
                microsecond = us\<rparr>)"

text \<open>The part of a timestamp below the whole second, in seconds.\<close>

definition subsecond :: "datetime \<Rightarrow> rat" where
  "subsecond dt = of_int (microsecond dt) / 1000000"

subsection \<open>\<open>_datevec2datetime\<close>\<close>

text \<open>
  The keyword arguments are evaluated in the order written, so the first missing
  component raises. The last argument is the fraction of the seconds times 1000,
  truncated, and it is passed as \<open>microsecond\<close>.
\<close>

definition datevec2datetime :: "rat list \<Rightarrow> error + datetime" where
  "datevec2datetime vec =
     ebind (py_index vec 0) (\<lambda>v0.
     ebind (py_index vec 1) (\<lambda>v1.
     ebind (py_index vec 2) (\<lambda>v2.
     ebind (py_index vec 3) (\<lambda>v3.
     ebind (py_index vec 4) (\<lambda>v4.
     ebind (py_index vec 5) (\<lambda>v5.
       datetime_new (py_int v0) (py_int v1) (py_int v2) (py_int v3) (py_int v4)
         (py_int v5) (py_int ((v5 - of_int (py_int v5)) * 1000))))))))"

text \<open>
  A date vector is valid when it has six components, the truncated components form
  a date and a time of day that exist, and the seconds are not negative.
\<close>

definition valid_datevec :: "rat list \<Rightarrow> bool" where
  "valid_datevec vec =
     (length vec = 6 \<and>
      1 \<le> py_int (vec ! 0) \<and> py_int (vec ! 0) \<le> 9999 \<and>
      1 \<le> py_int (vec ! 1) \<and> py_int (vec ! 1) \<le> 12 \<and>
      1 \<le> py_int (vec ! 2) \<and> py_int (vec ! 2) \<le> days_in_month (py_int (vec ! 0)) (py_int (vec ! 1)) \<and>
      0 \<le> py_int (vec ! 3) \<and> py_int (vec ! 3) \<le> 23 \<and>
      0 \<le> py_int (vec ! 4) \<and> py_int (vec ! 4) \<le> 59 \<and>
      0 \<le> vec ! 5 \<and> py_int (vec ! 5) \<le> 59)"

subsection \<open>Tables\<close>

text \<open>
  A cell of a table holds a number, a string, a timestamp, or is missing. A table has a
  row index and its columns in order, each with one cell per row.
\<close>

datatype val = Num rat | Str string | Time datetime | Missing

record dataframe =
  index :: "nat list"
  data :: "(string \<times> val list) list"

definition columns :: "dataframe \<Rightarrow> string list" where
  "columns df = map fst (data df)"

definition nrows :: "dataframe \<Rightarrow> nat" where
  "nrows df = length (index df)"

definition cell :: "dataframe \<Rightarrow> string \<Rightarrow> nat \<Rightarrow> val option" where
  "cell df c r =
     (case map_of (data df) c of
        None \<Rightarrow> None
      | Some vs \<Rightarrow> if r < length vs then Some (vs ! r) else None)"

text \<open>
  \<open>DataFrame(dict)\<close>: a value of the dict is a scalar or an array. The arrays must
  share one length, which is the number of rows, and every scalar is repeated in every
  row. A dict of scalars only is refused, since nothing says how many rows there are.
\<close>

datatype entry = Scalar val | Array "val list"

fun array_lengths :: "(string \<times> entry) list \<Rightarrow> nat list" where
  "array_lengths [] = []"
| "array_lengths ((c, Scalar v) # d) = array_lengths d"
| "array_lengths ((c, Array xs) # d) = length xs # array_lengths d"

fun to_column :: "nat \<Rightarrow> entry \<Rightarrow> val list" where
  "to_column n (Scalar v) = replicate n v"
| "to_column n (Array xs) = xs"

definition DataFrame :: "(string \<times> entry) list \<Rightarrow> error + dataframe" where
  "DataFrame d =
     (if d = [] then Inr \<lparr>index = [], data = []\<rparr>
      else case array_lengths d of
        [] \<Rightarrow> Inl (ValueError ''If using all scalar values, you must pass an index'')
      | n # ns \<Rightarrow>
          if list_ex (\<lambda>m. m \<noteq> n) ns
          then Inl (ValueError ''All arrays must be of the same length'')
          else Inr \<lparr>index = [0..<n], data = map (\<lambda>(c, e). (c, to_column n e)) d\<rparr>)"

text \<open>\<open>df[c] = v\<close> with a scalar \<open>v\<close>: the column is replaced, or added as the last one.\<close>

definition setitem :: "dataframe \<Rightarrow> string \<Rightarrow> val \<Rightarrow> dataframe" where
  "setitem df c v =
     (let col = replicate (nrows df) v
      in if c \<in> set (columns df)
         then df\<lparr>data := map (\<lambda>(k, vs). if k = c then (k, col) else (k, vs)) (data df)\<rparr>
         else df\<lparr>data := data df @ [(c, col)]\<rparr>)"

text \<open>
  \<open>concat(dfs, ignore_index=True, sort=False)\<close>: the columns are those of the tables
  in order of first appearance, the rows are stacked in the order of the list, a table
  without a column has missing cells there, and the index is renumbered from 0.
\<close>

definition all_columns :: "dataframe list \<Rightarrow> string list" where
  "all_columns dfs =
     foldl (\<lambda>acc df. acc @ filter (\<lambda>c. c \<notin> set acc) (columns df)) [] dfs"

definition column_or_missing :: "dataframe \<Rightarrow> string \<Rightarrow> val list" where
  "column_or_missing df c =
     (case map_of (data df) c of
        Some vs \<Rightarrow> vs
      | None \<Rightarrow> replicate (nrows df) Missing)"

definition concat_df :: "dataframe list \<Rightarrow> error + dataframe" where
  "concat_df dfs =
     (if dfs = [] then Inl (ValueError ''No objects to concatenate'')
      else Inr \<lparr>index = [0..<sum_list (map nrows dfs)],
                data = map (\<lambda>c. (c, concat (map (\<lambda>df. column_or_missing df c) dfs)))
                         (all_columns dfs)\<rparr>)"

subsection \<open>The raw file\<close>

text \<open>
  \<open>loadmat\<close> gives a dict from variable names to struct arrays, and every MATLAB
  value, also a scalar or a string, is an array of two axes. A struct is read by field
  name (a record here) or by field position (a list of its fields, for the data block
  of a cycle).
\<close>

type_synonym field = "rat list list"
type_synonym block = "field list"

record cycle_rec =
  c_type :: "string list"
  c_time :: "rat list list"
  c_ambient_temperature :: "rat list list"
  c_data :: "block list list"

record top_struct =
  cycle :: "cycle_rec list list"

type_synonym mat_contents = "string \<rightharpoonup> top_struct list list"

text \<open>\<open>a[i, j]\<close> on an array of two axes.\<close>

definition index2 :: "'a list list \<Rightarrow> int \<Rightarrow> int \<Rightarrow> error + 'a" where
  "index2 a i j = ebind (py_index a i) (\<lambda>row. py_index row j)"

subsection \<open>\<open>DATA_FIELDS\<close>\<close>

definition DATA_FIELDS :: "string \<rightharpoonup> string list" where
  "DATA_FIELDS = map_of
     [(''charge'',
         [''Voltage_measured'', ''Current_measured'', ''Temperature_measured'',
          ''Current_charge'', ''Voltage_charge'', ''Time'']),
      (''discharge'',
         [''Voltage_measured'', ''Current_measured'', ''Temperature_measured'',
          ''Current_charge'', ''Voltage_charge'', ''Time'', ''Capacity'']),
      (''impedance'',
         [''Sense_current'', ''Battery_current'', ''Current_ratio'',
          ''Battery_impedance'', ''Rectified_impedance'', ''Re'', ''Rct''])]"

subsection \<open>\<open>_get_metadata\<close> and \<open>_get_metadata_at\<close>\<close>

record metadata =
  types :: "string list"
  start_times :: "datetime list"
  ambient_temps :: "rat list"

text \<open>
  \<open>cycles[name][0]\<close> is the first row of the struct array, one entry per cycle; the
  three comprehensions run one after the other.
\<close>

definition get_metadata :: "cycle_rec list list \<Rightarrow> error + metadata" where
  "get_metadata cycles =
     ebind (py_index (map (map c_type) cycles) 0) (\<lambda>tys.
     ebind (emap (\<lambda>arr. py_index arr 0) tys) (\<lambda>ts.
     ebind (py_index (map (map c_time) cycles) 0) (\<lambda>tms.
     ebind (emap (\<lambda>arr. ebind (py_index arr 0) datevec2datetime) tms) (\<lambda>sts.
     ebind (py_index (map (map c_ambient_temperature) cycles) 0) (\<lambda>tps.
     ebind (emap (\<lambda>arr. ebind (py_index arr 0) (\<lambda>r. py_index r 0)) tps) (\<lambda>ats.
       Inr \<lparr>types = ts, start_times = sts, ambient_temps = ats\<rparr>))))))"

definition get_metadata_at :: "metadata \<Rightarrow> int \<Rightarrow> error + string \<times> datetime \<times> rat" where
  "get_metadata_at meta i =
     ebind (py_index (types meta) i) (\<lambda>t.
     ebind (py_index (start_times meta) i) (\<lambda>s.
     ebind (py_index (ambient_temps meta) i) (\<lambda>a.
       Inr (t, s, a))))"

subsection \<open>\<open>_cycle2df\<close>\<close>

text \<open>\<open>cycle_data[0][0][j][0]\<close>: the first row of the \<open>j\<close>-th field of the block.\<close>

definition field_data :: "block list list \<Rightarrow> nat \<Rightarrow> error + rat list" where
  "field_data cycle_data j =
     ebind (py_index cycle_data 0) (\<lambda>r.
     ebind (py_index r 0) (\<lambda>blk.
     ebind (py_index blk (int j)) (\<lambda>f.
       py_index f 0)))"

text \<open>The loop over the dict: data of a single element is replaced by that element.\<close>

definition scalarize :: "string \<times> rat list \<Rightarrow> string \<times> entry" where
  "scalarize kv =
     (case kv of (col, xs) \<Rightarrow>
        if length xs = 1 then (col, Scalar (Num (xs ! 0))) else (col, Array (map Num xs)))"

definition cycle_dict :: "block list list \<Rightarrow> string list \<Rightarrow> error + (string \<times> rat list) list" where
  "cycle_dict cycle_data flds =
     emap (\<lambda>(j, fld). ebind (field_data cycle_data j) (\<lambda>xs. Inr (fld, xs)))
       (enumerate 0 flds)"

text \<open>
  The three assignments \<open>df['type'] = dtype\<close>, \<open>df['start_time'] = start_time\<close> and
  \<open>df['ambient_temp'] = ambient_temp\<close>, in this order.
\<close>

definition with_metadata :: "dataframe \<Rightarrow> string \<Rightarrow> datetime \<Rightarrow> rat \<Rightarrow> dataframe" where
  "with_metadata df t s a =
     setitem (setitem (setitem df ''type'' (Str t)) ''start_time'' (Time s)) ''ambient_temp'' (Num a)"

definition cycle2df :: "block list list \<Rightarrow> metadata \<Rightarrow> int \<Rightarrow> error + dataframe" where
  "cycle2df cycle_data meta i =
     ebind (get_metadata_at meta i) (\<lambda>(dtype, start_time, ambient_temp).
       case DATA_FIELDS dtype of
         None \<Rightarrow> Inl (KeyError dtype)
       | Some flds \<Rightarrow>
           ebind (cycle_dict cycle_data flds) (\<lambda>d.
           ebind (DataFrame (map scalarize d)) (\<lambda>df.
             Inr (with_metadata df dtype start_time ambient_temp))))"

subsection \<open>\<open>read_nasa\<close>\<close>

text \<open>
  \<open>'%02d' % i\<close>: the decimal digits of \<open>i\<close>, a minus sign for a negative number, and
  zeros between them up to a width of at least two characters.
\<close>

definition digit_char :: "nat \<Rightarrow> char" where
  "digit_char d = ''0123456789'' ! d"

fun decimal :: "nat \<Rightarrow> string" where
  "decimal n = (if n < 10 then [digit_char n] else decimal (n div 10) @ [digit_char (n mod 10)])"

declare decimal.simps [simp del]

definition format_02d :: "int \<Rightarrow> string" where
  "format_02d i =
     (let sgn = (if i < 0 then ''-'' else []); ds = decimal (nat \<bar>i\<bar>)
      in sgn @ replicate (2 - length sgn - length ds) CHR ''0'' @ ds)"

definition battery_name :: "int \<Rightarrow> string" where
  "battery_name i = ''B00'' @ format_02d i"

definition file_path :: "int \<Rightarrow> string" where
  "file_path i = ''./data/raw/'' @ battery_name i @ ''.mat''"

text \<open>
  The tables of all cycles, in the order of the file: the comprehension over
  \<open>range(len(cycles_data[0]))\<close>. Each table is passed through \<open>DataFrame\<close> once
  more, which gives the same table.
\<close>

definition cycle_tables :: "block list list list list \<Rightarrow> metadata \<Rightarrow> error + dataframe list" where
  "cycle_tables cycles_data meta =
     ebind (py_index cycles_data 0) (\<lambda>row.
       emap (\<lambda>k. ebind (index2 cycles_data 0 (int k)) (\<lambda>cd. cycle2df cd meta (int k)))
         [0..<length row])"

text \<open>What \<open>read_nasa\<close> does with the struct array of the cycles, once the file is read.\<close>

definition read_cycles :: "cycle_rec list list \<Rightarrow> error + dataframe" where
  "read_cycles cycles =
     ebind (get_metadata cycles) (\<lambda>meta.
     ebind (cycle_tables (map (map c_data) cycles) meta) (\<lambda>dfs.
       concat_df dfs))"

text \<open>
  The file system is a parameter: \<open>loadmat\<close> maps a path to the contents of the file
  or to the exception it raises. \<open>load_cycles\<close> is the first half of \<open>read_nasa\<close>, down
  to \<open>top_level[0,0]['cycle']\<close>.
\<close>

definition load_cycles ::
  "(string \<Rightarrow> error + mat_contents) \<Rightarrow> int \<Rightarrow> error + cycle_rec list list" where
  "load_cycles loadmat i =
     ebind (loadmat (file_path i)) (\<lambda>mat.
       case mat (battery_name i) of
         None \<Rightarrow> Inl (KeyError (battery_name i))
       | Some top_level \<Rightarrow> ebind (index2 top_level 0 0) (\<lambda>top. Inr (cycle top)))"

definition read_nasa :: "(string \<Rightarrow> error + mat_contents) \<Rightarrow> int \<Rightarrow> error + dataframe" where
  "read_nasa loadmat i = ebind (load_cycles loadmat i) read_cycles"

subsection \<open>Notions of the specification\<close>


text \<open>The first row of cycle \<open>k\<close> in the stacked table, given the tables of the cycles.\<close>

definition row_offset :: "dataframe list \<Rightarrow> nat \<Rightarrow> nat" where
  "row_offset dfs k = sum_list (map nrows (take k dfs))"

text \<open>A table is well formed when every column has one cell per row.\<close>

definition wf_dataframe :: "dataframe \<Rightarrow> bool" where
  "wf_dataframe df = list_all (\<lambda>(c, vs). length vs = nrows df) (data df)"

subsection \<open>Sample inputs\<close>

text \<open>
  A discharge cycle with two samples and a single capacity, an impedance cycle with three
  samples, and cycles that are malformed in one way each. \<open>battery_file\<close> is a file
  system that holds one file, for battery 5, with the given cycles.
\<close>

definition sample_time :: datetime where
  "sample_time = \<lparr>year = 2008, month = 5, day = 22, hour = 21, minute = 48, second = 39,
                   microsecond = 15\<rparr>"

definition sample_discharge :: cycle_rec where
  "sample_discharge =
     \<lparr>c_type = [''discharge''], c_time = [[2008, 5, 22, 21, 48, 39015 / 1000]],
      c_ambient_temperature = [[24]],
      c_data = [[[[[1, 2]], [[3, 4]], [[5, 6]], [[7, 8]], [[9, 10]], [[11, 12]], [[21 / 10]]]]]\<rparr>"

definition sample_impedance :: cycle_rec where
  "sample_impedance =
     \<lparr>c_type = [''impedance''], c_time = [[2008, 5, 22, 23, 10, 0]],
      c_ambient_temperature = [[24]],
      c_data = [[[[[1, 2, 3]], [[4, 5, 6]], [[7, 8, 9]], [[1, 1, 1]], [[2, 2, 2]], [[1 / 20]],
                  [[1 / 10]]]]]\<rparr>"

definition sample_unknown :: cycle_rec where
  "sample_unknown = sample_discharge\<lparr>c_type := [''rest'']\<rparr>"

definition sample_single :: cycle_rec where
  "sample_single =
     sample_discharge\<lparr>c_data := [[[[[1]], [[3]], [[5]], [[7]], [[9]], [[11]], [[21 / 10]]]]]\<rparr>"

definition sample_short :: cycle_rec where
  "sample_short =
     sample_discharge\<lparr>c_data := [[[[[1, 2]], [[3, 4]], [[5, 6]], [[7, 8]], [[9, 10]]]]]\<rparr>"

definition sample_uneven :: cycle_rec where
  "sample_uneven =
     sample_discharge\<lparr>c_data :=
       [[[[[1, 2]], [[3, 4, 5]], [[5, 6]], [[7, 8]], [[9, 10]], [[11, 12]], [[21 / 10]]]]]\<rparr>"

definition sample_charge_long :: cycle_rec where
  "sample_charge_long = sample_discharge\<lparr>c_type := [''charge'']\<rparr>"

definition sample_meta :: "string \<Rightarrow> metadata" where
  "sample_meta t = \<lparr>types = [t], start_times = [sample_time], ambient_temps = [24]\<rparr>"

definition battery_file :: "cycle_rec list \<Rightarrow> string \<Rightarrow> error + mat_contents" where
  "battery_file cs p =
     (if p = ''./data/raw/B0005.mat'' then Inr [''B0005'' \<mapsto> [[\<lparr>cycle = [cs]\<rparr>]]]
      else Inl (LoadError p))"

text \<open>The table of the sample discharge cycle.\<close>

definition sample_discharge_table :: dataframe where
  "sample_discharge_table =
     \<lparr>index = [0, 1],
      data =
        [(''Voltage_measured'', [Num 1, Num 2]),
         (''Current_measured'', [Num 3, Num 4]),
         (''Temperature_measured'', [Num 5, Num 6]),
         (''Current_charge'', [Num 7, Num 8]),
         (''Voltage_charge'', [Num 9, Num 10]),
         (''Time'', [Num 11, Num 12]),
         (''Capacity'', [Num (21 / 10), Num (21 / 10)]),
         (''type'', [Str ''discharge'', Str ''discharge'']),
         (''start_time'', [Time sample_time, Time sample_time]),
         (''ambient_temp'', [Num 24, Num 24])]\<rparr>"

text \<open>
  A charge cycle with the six fields of its schema; \<open>sample_charge_long\<close> has a seventh
  field after them. Both give the same table.
\<close>

definition sample_charge :: cycle_rec where
  "sample_charge =
     sample_charge_long\<lparr>c_data :=
       [[[[[1, 2]], [[3, 4]], [[5, 6]], [[7, 8]], [[9, 10]], [[11, 12]]]]]\<rparr>"

definition sample_charge_table :: dataframe where
  "sample_charge_table =
     \<lparr>index = [0, 1],
      data =
        [(''Voltage_measured'', [Num 1, Num 2]),
         (''Current_measured'', [Num 3, Num 4]),
         (''Temperature_measured'', [Num 5, Num 6]),
         (''Current_charge'', [Num 7, Num 8]),
         (''Voltage_charge'', [Num 9, Num 10]),
         (''Time'', [Num 11, Num 12]),
         (''type'', [Str ''charge'', Str ''charge'']),
         (''start_time'', [Time sample_time, Time sample_time]),
         (''ambient_temp'', [Num 24, Num 24])]\<rparr>"

text \<open>The table of the file that holds the sample discharge and impedance cycles.\<close>

definition sample_impedance_time :: datetime where
  "sample_impedance_time = \<lparr>year = 2008, month = 5, day = 22, hour = 23, minute = 10, second = 0,
                             microsecond = 0\<rparr>"

definition sample_impedance_table :: dataframe where
  "sample_impedance_table =
     \<lparr>index = [0, 1, 2],
      data =
        [(''Sense_current'', [Num 1, Num 2, Num 3]),
         (''Battery_current'', [Num 4, Num 5, Num 6]),
         (''Current_ratio'', [Num 7, Num 8, Num 9]),
         (''Battery_impedance'', [Num 1, Num 1, Num 1]),
         (''Rectified_impedance'', [Num 2, Num 2, Num 2]),
         (''Re'', [Num (1 / 20), Num (1 / 20), Num (1 / 20)]),
         (''Rct'', [Num (1 / 10), Num (1 / 10), Num (1 / 10)]),
         (''type'', [Str ''impedance'', Str ''impedance'', Str ''impedance'']),
         (''start_time'',
            [Time sample_impedance_time, Time sample_impedance_time, Time sample_impedance_time]),
         (''ambient_temp'', [Num 24, Num 24, Num 24])]\<rparr>"

definition sample_battery_table :: dataframe where
  "sample_battery_table =
     \<lparr>index = [0, 1, 2, 3, 4],
      data =
        [(''Voltage_measured'', [Num 1, Num 2, Missing, Missing, Missing]),
         (''Current_measured'', [Num 3, Num 4, Missing, Missing, Missing]),
         (''Temperature_measured'', [Num 5, Num 6, Missing, Missing, Missing]),
         (''Current_charge'', [Num 7, Num 8, Missing, Missing, Missing]),
         (''Voltage_charge'', [Num 9, Num 10, Missing, Missing, Missing]),
         (''Time'', [Num 11, Num 12, Missing, Missing, Missing]),
         (''Capacity'', [Num (21 / 10), Num (21 / 10), Missing, Missing, Missing]),
         (''type'',
            [Str ''discharge'', Str ''discharge'', Str ''impedance'', Str ''impedance'',
             Str ''impedance'']),
         (''start_time'',
            [Time sample_time, Time sample_time, Time sample_impedance_time,
             Time sample_impedance_time, Time sample_impedance_time]),
         (''ambient_temp'', [Num 24, Num 24, Num 24, Num 24, Num 24]),
         (''Sense_current'', [Missing, Missing, Num 1, Num 2, Num 3]),
         (''Battery_current'', [Missing, Missing, Num 4, Num 5, Num 6]),
         (''Current_ratio'', [Missing, Missing, Num 7, Num 8, Num 9]),
         (''Battery_impedance'', [Missing, Missing, Num 1, Num 1, Num 1]),
         (''Rectified_impedance'', [Missing, Missing, Num 2, Num 2, Num 2]),
         (''Re'', [Missing, Missing, Num (1 / 20), Num (1 / 20), Num (1 / 20)]),
         (''Rct'', [Missing, Missing, Num (1 / 10), Num (1 / 10), Num (1 / 10)])]\<rparr>"

section \<open>Properties\<close>

subsection \<open>Indexing\<close>

lemma py_index_nat:
  "py_index xs (int k) = (if k < length xs then Inr (xs ! k) else Inl IndexError)"
  by (simp add: py_index_def)

lemma py_index_error: "py_index xs i = Inl e \<Longrightarrow> e = IndexError"
  by (simp add: py_index_def split: if_splits)

lemma ebind_Inr_iff: "ebind m f = Inr y \<longleftrightarrow> (\<exists>x. m = Inr x \<and> f x = Inr y)"
  by (cases m) (simp_all add: ebind_def)

lemma ebind_Inl_iff: "ebind m f = Inl e \<longleftrightarrow> m = Inl e \<or> (\<exists>x. m = Inr x \<and> f x = Inl e)"
  by (cases m) (simp_all add: ebind_def)

lemma ebind_Inr [simp]: "ebind (Inr x) f = f x"
  by (simp add: ebind_def)

lemma ebind_Inl [simp]: "ebind (Inl e) f = Inl e"
  by (simp add: ebind_def)

lemma emap_Inr_length: "emap f xs = Inr ys \<Longrightarrow> length ys = length xs"
  by (induction xs arbitrary: ys) (auto split: sum.splits)

lemma emap_Inr_nth: "emap f xs = Inr ys \<Longrightarrow> i < length xs \<Longrightarrow> f (xs ! i) = Inr (ys ! i)"
proof (induction xs arbitrary: ys i)
  case Nil
  then show ?case by simp
next
  case (Cons x xs)
  then show ?case by (cases i) (auto split: sum.splits)
qed

lemma emap_Inl_elem: "emap f xs = Inl e \<Longrightarrow> \<exists>x \<in> set xs. f x = Inl e"
  by (induction xs) (auto split: sum.splits)

lemma emap_fails: "x \<in> set xs \<Longrightarrow> f x = Inl e \<Longrightarrow> \<exists>e'. emap f xs = Inl e'"
  by (induction xs) (auto split: sum.splits)

lemma emap_first_error:
  "k < length xs \<Longrightarrow> f (xs ! k) = Inl e \<Longrightarrow> (\<forall>j<k. \<exists>y. f (xs ! j) = Inr y) \<Longrightarrow> emap f xs = Inl e"
proof (induction xs arbitrary: k)
  case Nil
  then show ?case by simp
next
  case (Cons x xs)
  show ?case
  proof (cases k)
    case 0
    with Cons.prems show ?thesis by simp
  next
    case (Suc k')
    from Cons.prems(3) Suc obtain y where y: "f x = Inr y" by fastforce
    have "\<forall>j<k'. \<exists>y. f (xs ! j) = Inr y"
      using Cons.prems(3) Suc by fastforce
    then have "emap f xs = Inl e"
      using Cons.IH [of k'] Cons.prems(1,2) Suc by simp
    with y show ?thesis by simp
  qed
qed

lemma py_index_short:
  "length xs \<le> k \<Longrightarrow> py_index xs (int k) = Inl IndexError"
  by (simp add: py_index_nat)

subsection \<open>Date vectors\<close>

lemma py_index_5_short: "length vec < 6 \<Longrightarrow> py_index vec 5 = Inl IndexError"
  using py_index_short [of vec 5] by simp

text \<open>
  C9. A date vector with fewer than six components makes \<open>_datevec2datetime\<close> raise
  IndexError: no timestamp is produced from the components that are there.
\<close>

theorem datevec2datetime_short:
  "length vec < 6 \<Longrightarrow> datevec2datetime vec = Inl IndexError"
proof -
  assume short: "length vec < 6"
  have last: "py_index vec 5 = Inl IndexError"
    using short by (rule py_index_5_short)
  show ?thesis
    unfolding datevec2datetime_def ebind_def
    using last by (auto split: sum.splits dest: py_index_error)
qed

theorem datevec2datetime_short_witness:
  "length [2008, 5, 22, 21, 48 :: rat] < 6 \<and>
   datevec2datetime [2008, 5, 22, 21, 48] = Inl IndexError"
  using datevec2datetime_short [of "[2008, 5, 22, 21, 48]"] by simp

lemma millis_range:
  fixes s :: rat
  shows "0 \<le> \<lfloor>(s - of_int \<lfloor>s\<rfloor>) * 1000\<rfloor> \<and> \<lfloor>(s - of_int \<lfloor>s\<rfloor>) * 1000\<rfloor> \<le> 999"
proof -
  have f: "s - of_int \<lfloor>s\<rfloor> = frac s" by (simp add: frac_def)
  have "0 \<le> frac s * 1000" by simp
  moreover have "frac s * 1000 < 1000" using frac_lt_1 [of s] by simp
  ultimately show ?thesis unfolding f by (simp add: floor_less_iff le_floor_iff)
qed

text \<open>
  On a valid date vector the conversion succeeds: the six components are the truncated
  components of the vector, and the \<open>microsecond\<close> field holds the number of whole
  thousandths in the fraction of the seconds.
\<close>

lemma datevec2datetime_valid:
  assumes "valid_datevec vec"
  shows "datevec2datetime vec =
           Inr \<lparr>year = py_int (vec ! 0), month = py_int (vec ! 1), day = py_int (vec ! 2),
                hour = py_int (vec ! 3), minute = py_int (vec ! 4), second = \<lfloor>vec ! 5\<rfloor>,
                microsecond = \<lfloor>(vec ! 5 - of_int \<lfloor>vec ! 5\<rfloor>) * 1000\<rfloor>\<rparr>"
proof -
  define us where "us = \<lfloor>(vec ! 5 - of_int \<lfloor>vec ! 5\<rfloor>) * 1000\<rfloor>"
  define sec where "sec = \<lfloor>vec ! 5\<rfloor>"
  have len: "length vec = 6" using assms by (simp add: valid_datevec_def)
  have ix: "py_index vec 0 = Inr (vec ! 0)" "py_index vec 1 = Inr (vec ! 1)"
    "py_index vec 2 = Inr (vec ! 2)" "py_index vec 3 = Inr (vec ! 3)"
    "py_index vec 4 = Inr (vec ! 4)" "py_index vec 5 = Inr (vec ! 5)"
    using len by (simp_all add: py_index_def)
  have s: "py_int (vec ! 5) = sec"
    using assms by (simp add: valid_datevec_def py_int_def sec_def)
  have srng: "0 \<le> sec" "sec \<le> 59"
    using assms s by (simp_all add: valid_datevec_def sec_def)
  have fr: "0 \<le> (vec ! 5 - of_int sec) * 1000"
    using frac_ge_0 [of "vec ! 5"] by (simp add: frac_def sec_def)
  have us: "py_int ((vec ! 5 - of_int sec) * 1000) = us"
    using fr by (simp only: py_int_def if_True us_def sec_def)
  have rng: "0 \<le> us" "us \<le> 999999"
    using millis_range [of "vec ! 5"] by (simp_all add: us_def)
  have "datetime_new (py_int (vec ! 0)) (py_int (vec ! 1)) (py_int (vec ! 2))
          (py_int (vec ! 3)) (py_int (vec ! 4)) sec us =
        Inr \<lparr>year = py_int (vec ! 0), month = py_int (vec ! 1), day = py_int (vec ! 2),
                hour = py_int (vec ! 3), minute = py_int (vec ! 4), second = sec,
                microsecond = us\<rparr>"
    using assms rng srng by (simp add: datetime_new_def valid_datevec_def)
  then show ?thesis
    unfolding datevec2datetime_def ix ebind_Inr s us
    by (simp only: us_def sec_def)
qed

text \<open>
  C1. On the date vector of the docstring, \<open>[2008, 5, 22, 21, 48, 39.015]\<close>, the six
  components come back as they are, but the 15 thousandths of a second are stored in
  the \<open>microsecond\<close> field: the timestamp is 21:48:39.000015 and not 21:48:39.015.
\<close>

theorem datevec2datetime_example:
  "datevec2datetime [2008, 5, 22, 21, 48, 39015 / 1000] =
     Inr \<lparr>year = 2008, month = 5, day = 22, hour = 21, minute = 48, second = 39,
          microsecond = 15\<rparr> \<and>
   subsecond \<lparr>year = 2008, month = 5, day = 22, hour = 21, minute = 48, second = 39,
          microsecond = 15\<rparr> = 15 / 1000000 \<and>
   subsecond \<lparr>year = 2008, month = 5, day = 22, hour = 21, minute = 48, second = 39,
          microsecond = 15\<rparr> \<noteq> 15 / 1000"
  by code_simp

subsection \<open>The path of the file\<close>

lemma digit_char_0: "digit_char 0 = CHR ''0''"
  by (simp add: digit_char_def)

lemma decimal_small: "n < 10 \<Longrightarrow> decimal n = [digit_char n]"
  by (simp add: decimal.simps)

lemma decimal_step: "10 \<le> n \<Longrightarrow> decimal n = decimal (n div 10) @ [digit_char (n mod 10)]"
  by (subst decimal.simps) simp

lemma decimal_two: "10 \<le> n \<Longrightarrow> n < 100 \<Longrightarrow> decimal n = [digit_char (n div 10), digit_char (n mod 10)]"
  by (simp add: decimal_step decimal_small)

lemma length_decimal_pos: "0 < length (decimal n)"
  by (subst decimal.simps) simp

lemma length_decimal_large: "100 \<le> n \<Longrightarrow> 2 < length (decimal n)"
proof -
  assume n: "100 \<le> n"
  then have "10 \<le> n div 10" by simp
  then have "length (decimal (n div 10)) = Suc (length (decimal (n div 10 div 10)))"
    by (simp add: decimal_step)
  moreover have "length (decimal n) = Suc (length (decimal (n div 10)))"
    using n by (simp add: decimal_step)
  ultimately show ?thesis using length_decimal_pos [of "n div 10 div 10"] by simp
qed

text \<open>
  C8, as amended. For an index from 0 to 99 the path is \<open>./data/raw/B00\<close>, the two
  decimal digits of the index and \<open>.mat\<close>. From 100 on the width of the format is only a
  minimum: the path carries all the digits of the index, more than two.
\<close>

theorem file_path_digits:
  "(0 \<le> i \<and> i < 100 \<longrightarrow>
      file_path i = ''./data/raw/B00'' @ [digit_char (nat i div 10), digit_char (nat i mod 10)] @ ''.mat'') \<and>
   (100 \<le> i \<longrightarrow>
      file_path i = ''./data/raw/B00'' @ decimal (nat i) @ ''.mat'' \<and> 2 < length (decimal (nat i)))"
proof (intro conjI impI)
  assume r: "0 \<le> i \<and> i < 100"
  show "file_path i = ''./data/raw/B00'' @ [digit_char (nat i div 10), digit_char (nat i mod 10)] @ ''.mat''"
  proof (cases "nat i < 10")
    case True
    then show ?thesis using r
      by (simp add: file_path_def battery_name_def format_02d_def decimal_small digit_char_0)
  next
    case False
    then have "10 \<le> nat i" "nat i < 100" using r by linarith+
    then show ?thesis using r
      by (simp add: file_path_def battery_name_def format_02d_def decimal_two)
  qed
next
  assume r: "100 \<le> i"
  then have big: "2 < length (decimal (nat i))"
    using length_decimal_large [of "nat i"] by simp
  then show "file_path i = ''./data/raw/B00'' @ decimal (nat i) @ ''.mat''"
    using r by (simp add: file_path_def battery_name_def format_02d_def)
  show "2 < length (decimal (nat i))" by (rule big)
qed

theorem file_path_digits_witness:
  "file_path 5 = ''./data/raw/B0005.mat'' \<and> file_path 123 = ''./data/raw/B00123.mat''"
  using file_path_digits [of 5] file_path_digits [of 123]
  by (simp add: digit_char_def decimal.simps)


text \<open>The index 100 gives a name with three digits after \<open>B00\<close>.\<close>

theorem file_path_three_digits: "file_path 100 = ''./data/raw/B00100.mat'' \<and> length (format_02d 100) = 3"
  by code_simp


subsection \<open>The schema\<close>

lemma DATA_FIELDS_None_iff:
  "DATA_FIELDS t = None \<longleftrightarrow> t \<notin> {''charge'', ''discharge'', ''impedance''}"
  by (simp add: DATA_FIELDS_def)

lemma DATA_FIELDS_Some:
  assumes "DATA_FIELDS t = Some flds"
  shows "flds \<noteq> []" and "distinct flds"
    and "''type'' \<notin> set flds" and "''start_time'' \<notin> set flds" and "''ambient_temp'' \<notin> set flds"
  using assms by (auto simp: DATA_FIELDS_def split: if_splits)

subsection \<open>Tables\<close>

lemma array_lengths_scalarize:
  "array_lengths (map scalarize d) = filter (\<lambda>n. n \<noteq> 1) (map (length \<circ> snd) d)"
  by (induction d) (auto simp: scalarize_def)

lemma to_column_length:
  "(c, e) \<in> set d \<Longrightarrow> \<forall>m \<in> set (array_lengths d). m = n \<Longrightarrow> length (to_column n e) = n"
  by (induction d rule: array_lengths.induct) auto

lemma DataFrame_Inr:
  assumes "DataFrame d = Inr df" and "d \<noteq> []"
  shows "\<exists>n. array_lengths d \<noteq> [] \<and> (\<forall>m \<in> set (array_lengths d). m = n) \<and>
             index df = [0..<n] \<and> data df = map (\<lambda>(c, e). (c, to_column n e)) d"
  using assms
  by (auto simp: DataFrame_def list_ex_iff split: list.splits if_splits)

lemma DataFrame_all_scalars:
  "d \<noteq> [] \<Longrightarrow> array_lengths d = [] \<Longrightarrow>
   DataFrame d = Inl (ValueError ''If using all scalar values, you must pass an index'')"
  by (simp add: DataFrame_def)

lemma DataFrame_same_length:
  assumes "array_lengths d \<noteq> []" and "\<forall>m \<in> set (array_lengths d). m = n"
  shows "DataFrame d = Inr \<lparr>index = [0..<n], data = map (\<lambda>(c, e). (c, to_column n e)) d\<rparr>"
proof -
  from assms obtain m ms where ms: "array_lengths d = m # ms" by (cases "array_lengths d") auto
  with assms(2) have "m = n" "\<forall>k \<in> set ms. k = n" by auto
  moreover have "d \<noteq> []" using assms(1) by auto
  ultimately show ?thesis using ms by (simp add: DataFrame_def list_ex_iff)
qed

lemma nrows_setitem [simp]: "nrows (setitem df c v) = nrows df"
  by (simp add: setitem_def nrows_def Let_def)

lemma index_setitem [simp]: "index (setitem df c v) = index df"
  by (simp add: setitem_def Let_def)



lemma wf_dataframe_setitem: "wf_dataframe df \<Longrightarrow> wf_dataframe (setitem df c v)"
  by (auto simp: wf_dataframe_def setitem_def Let_def nrows_def list_all_iff split: if_splits)

lemma wf_DataFrame:
  assumes "DataFrame d = Inr df"
  shows "wf_dataframe df"
proof (cases "d = []")
  case True
  with assms show ?thesis by (auto simp: DataFrame_def wf_dataframe_def)
next
  case False
  from DataFrame_Inr [OF assms False] obtain n where
    n: "\<forall>m \<in> set (array_lengths d). m = n" "index df = [0..<n]"
       "data df = map (\<lambda>(c, e). (c, to_column n e)) d" by blast
  show ?thesis
    using n to_column_length [where d = d and n = n]
    by (auto simp: wf_dataframe_def nrows_def list_all_iff)
qed

subsection \<open>The dict of a cycle\<close>

lemma field_data_error: "field_data cd j = Inl e \<Longrightarrow> e = IndexError"
  unfolding field_data_def
  by (auto simp: ebind_Inl_iff dest: py_index_error)

lemma cycle_dict_error: "cycle_dict cd flds = Inl e \<Longrightarrow> e = IndexError"
proof -
  assume "cycle_dict cd flds = Inl e"
  then obtain x where xin: "x \<in> set (enumerate 0 flds)"
    and x: "(\<lambda>(j, fld). ebind (field_data cd j) (\<lambda>xs. Inr (fld, xs))) x = Inl e"
    unfolding cycle_dict_def by (blast dest: emap_Inl_elem)
  obtain j fld where "x = (j, fld)" by (cases x)
  with x have "ebind (field_data cd j) (\<lambda>xs. Inr (fld, xs)) = Inl e"
    by simp
  then have "field_data cd j = Inl e"
    by (simp add: ebind_Inl_iff)
  then show ?thesis by (rule field_data_error)
qed

lemma emap_pair_keys:
  "emap (\<lambda>(j, fld). ebind (g j) (\<lambda>xs. Inr (fld, xs))) jfs = Inr d \<Longrightarrow> map fst d = map snd jfs"
proof (induction jfs arbitrary: d)
  case Nil
  then show ?case by simp
next
  case (Cons jf jfs)
  obtain j fld where jf: "jf = (j, fld)" by (cases jf)
  from Cons.prems obtain xs ds where "g j = Inr xs" "emap (\<lambda>(j, fld). ebind (g j) (\<lambda>xs. Inr (fld, xs))) jfs = Inr ds"
    "d = (fld, xs) # ds"
    by (auto simp: jf ebind_def split: sum.splits)
  then show ?case using Cons.IH [of ds] jf by simp
qed

lemma cycle_dict_keys: "cycle_dict cd flds = Inr d \<Longrightarrow> map fst d = flds"
  unfolding cycle_dict_def by (drule emap_pair_keys) simp

lemma field_data_block:
  "index2 cd 0 0 = Inr blk \<Longrightarrow> field_data cd j = ebind (py_index blk (int j)) (\<lambda>f. py_index f 0)"
  by (auto simp: index2_def field_data_def ebind_Inr_iff)

lemma cycle_dict_short:
  assumes "index2 cd 0 0 = Inr blk" and "length blk < length flds"
  shows "cycle_dict cd flds = Inl IndexError"
proof -
  let ?f = "\<lambda>(j, fld). ebind (field_data cd j) (\<lambda>xs. Inr (fld, xs))"
  have "field_data cd (length blk) = Inl IndexError"
    using assms(1) by (simp add: field_data_block py_index_nat)
  then have "?f (length blk, flds ! length blk) = Inl IndexError" by simp
  moreover have "(length blk, flds ! length blk) \<in> set (enumerate 0 flds)"
    using assms(2) by (simp add: in_set_enumerate_eq)
  ultimately obtain e where "cycle_dict cd flds = Inl e"
    unfolding cycle_dict_def using emap_fails [of _ "enumerate 0 flds" ?f] by blast
  then show ?thesis using cycle_dict_error by blast
qed

lemma emap_cong_set: "(\<And>x. x \<in> set xs \<Longrightarrow> f x = g x) \<Longrightarrow> emap f xs = emap g xs"
proof (induction xs)
  case Nil
  then show ?case by simp
next
  case (Cons x xs)
  have "f x = g x" using Cons.prems by simp
  moreover have "emap f xs = emap g xs" using Cons by simp
  ultimately show ?case by (simp split: sum.splits)
qed

lemma cycle_dict_extra:
  assumes "index2 cd 0 0 = Inr blk" and "index2 cd' 0 0 = Inr (blk @ extra)"
    and "length flds \<le> length blk"
  shows "cycle_dict cd' flds = cycle_dict cd flds"
  unfolding cycle_dict_def
proof (rule emap_cong_set)
  fix x assume xin: "x \<in> set (enumerate 0 flds)"
  obtain j fld where x: "x = (j, fld)" by (cases x)
  have j: "j < length flds"
    using xin by (simp add: x in_set_enumerate_eq)
  then have "j < length blk" using assms(3) by simp
  then have "field_data cd' j = field_data cd j"
    using assms(1,2) by (simp add: field_data_block py_index_nat nth_append)
  then show "(case x of (j, fld) \<Rightarrow> ebind (field_data cd' j) (\<lambda>xs. Inr (fld, xs))) =
             (case x of (j, fld) \<Rightarrow> ebind (field_data cd j) (\<lambda>xs. Inr (fld, xs)))"
    by (simp add: x)
qed

subsection \<open>The table of a cycle\<close>

lemma cycle2df_unfold:
  assumes "get_metadata_at meta i = Inr (t, s, a)" and "DATA_FIELDS t = Some flds"
  shows "cycle2df cd meta i =
           ebind (cycle_dict cd flds) (\<lambda>d.
           ebind (DataFrame (map scalarize d)) (\<lambda>df. Inr (with_metadata df t s a)))"
  using assms by (simp add: cycle2df_def)

lemma cycle2df_Inr_D:
  assumes "cycle2df cd meta i = Inr df"
  shows "\<exists>t s a flds d df0. get_metadata_at meta i = Inr (t, s, a) \<and> DATA_FIELDS t = Some flds \<and>
           cycle_dict cd flds = Inr d \<and> DataFrame (map scalarize d) = Inr df0 \<and>
           df = with_metadata df0 t s a"
  using assms unfolding cycle2df_def
  by (auto simp: ebind_Inr_iff split: option.splits)

lemma nrows_with_metadata [simp]: "nrows (with_metadata df t s a) = nrows df"
  by (simp add: with_metadata_def)

lemma wf_with_metadata: "wf_dataframe df \<Longrightarrow> wf_dataframe (with_metadata df t s a)"
  by (simp add: with_metadata_def wf_dataframe_setitem)


lemma cycle2df_wf: "cycle2df cd meta i = Inr df \<Longrightarrow> wf_dataframe df"
  by (auto dest!: cycle2df_Inr_D intro: wf_with_metadata wf_DataFrame)


subsection \<open>Metadata\<close>

lemma py_index_map:
  "py_index (map f xs) i = (case py_index xs i of Inl e \<Rightarrow> Inl e | Inr x \<Rightarrow> Inr (f x))"
proof -
  have "nat i < length xs" if "0 \<le> i" "i < int (length xs)"
    using that by linarith
  moreover have "nat (int (length xs) + i) < length xs" if "i < 0" "- int (length xs) \<le> i"
    using that by linarith
  ultimately show ?thesis
    by (simp add: py_index_def)
qed

lemma emap_map: "emap f (map g xs) = emap (\<lambda>x. f (g x)) xs"
  by (induction xs) (simp_all split: sum.splits)

lemma get_metadata_Inr_D:
  assumes "get_metadata cycles = Inr meta"
  shows "\<exists>row. py_index cycles 0 = Inr row \<and>
           emap (\<lambda>c. py_index (c_type c) 0) row = Inr (types meta) \<and>
           emap (\<lambda>c. ebind (py_index (c_time c) 0) datevec2datetime) row = Inr (start_times meta) \<and>
           emap (\<lambda>c. index2 (c_ambient_temperature c) 0 0) row = Inr (ambient_temps meta)"
proof -
  from assms obtain tys ts tms sts tps ats where
    1: "py_index (map (map c_type) cycles) 0 = Inr tys"
    and 2: "emap (\<lambda>arr. py_index arr 0) tys = Inr ts"
    and 3: "py_index (map (map c_time) cycles) 0 = Inr tms"
    and 4: "emap (\<lambda>arr. ebind (py_index arr 0) datevec2datetime) tms = Inr sts"
    and 5: "py_index (map (map c_ambient_temperature) cycles) 0 = Inr tps"
    and 6: "emap (\<lambda>arr. ebind (py_index arr 0) (\<lambda>r. py_index r 0)) tps = Inr ats"
    and 7: "meta = \<lparr>types = ts, start_times = sts, ambient_temps = ats\<rparr>"
    unfolding get_metadata_def by (auto simp: ebind_Inr_iff)
  from 1 obtain row where row: "py_index cycles 0 = Inr row" and tys: "tys = map c_type row"
    by (auto simp: py_index_map split: sum.splits)
  from 3 row have tms: "tms = map c_time row" by (simp add: py_index_map)
  from 5 row have tps: "tps = map c_ambient_temperature row" by (simp add: py_index_map)
  show ?thesis
    using row 2 4 6 unfolding tys tms tps 7 emap_map index2_def by simp
qed

lemma get_metadata_at_nat:
  assumes "k < length (types meta)" and "k < length (start_times meta)"
    and "k < length (ambient_temps meta)"
  shows "get_metadata_at meta (int k) =
           Inr (types meta ! k, start_times meta ! k, ambient_temps meta ! k)"
  using assms by (simp add: get_metadata_at_def py_index_nat)

lemma get_metadata_cycle:
  assumes "get_metadata cycles = Inr meta" and "py_index cycles 0 = Inr row" and "k < length row"
  shows "get_metadata_at meta (int k) =
           Inr (types meta ! k, start_times meta ! k, ambient_temps meta ! k)"
    and "py_index (c_type (row ! k)) 0 = Inr (types meta ! k)"
    and "ebind (py_index (c_time (row ! k)) 0) datevec2datetime = Inr (start_times meta ! k)"
    and "index2 (c_ambient_temperature (row ! k)) 0 0 = Inr (ambient_temps meta ! k)"
proof -
  from get_metadata_Inr_D [OF assms(1)] assms(2) have
    t: "emap (\<lambda>c. py_index (c_type c) 0) row = Inr (types meta)"
    and s: "emap (\<lambda>c. ebind (py_index (c_time c) 0) datevec2datetime) row = Inr (start_times meta)"
    and a: "emap (\<lambda>c. index2 (c_ambient_temperature c) 0 0) row = Inr (ambient_temps meta)"
    by auto
  have "length (types meta) = length row" "length (start_times meta) = length row"
    "length (ambient_temps meta) = length row"
    using t s a by (auto dest: emap_Inr_length)
  then show "get_metadata_at meta (int k) =
           Inr (types meta ! k, start_times meta ! k, ambient_temps meta ! k)"
    using assms(3) by (simp add: get_metadata_at_nat)
  show "py_index (c_type (row ! k)) 0 = Inr (types meta ! k)"
    using emap_Inr_nth [OF t assms(3)] .
  show "ebind (py_index (c_time (row ! k)) 0) datevec2datetime = Inr (start_times meta ! k)"
    using emap_Inr_nth [OF s assms(3)] .
  show "index2 (c_ambient_temperature (row ! k)) 0 0 = Inr (ambient_temps meta ! k)"
    using emap_Inr_nth [OF a assms(3)] .
qed

subsection \<open>The whole file\<close>

lemma cycle_tables_row:
  assumes "py_index cycles 0 = Inr row"
  shows "cycle_tables (map (map c_data) cycles) meta =
           emap (\<lambda>k. cycle2df (c_data (row ! k)) meta (int k)) [0..<length row]"
proof -
  have r: "py_index (map (map c_data) cycles) 0 = Inr (map c_data row)"
    using assms by (simp add: py_index_map)
  have "emap (\<lambda>k. ebind (index2 (map (map c_data) cycles) 0 (int k)) (\<lambda>cd. cycle2df cd meta (int k)))
          [0..<length row] =
        emap (\<lambda>k. cycle2df (c_data (row ! k)) meta (int k)) [0..<length row]"
    by (rule emap_cong_set) (simp add: index2_def r py_index_nat)
  then show ?thesis
    by (simp add: cycle_tables_def r)
qed

lemma read_cycles_abort:
  assumes "py_index cycles 0 = Inr row" and "k < length row"
    and "\<And>meta. get_metadata cycles = Inr meta \<Longrightarrow>
           \<exists>e. cycle2df (c_data (row ! k)) meta (int k) = Inl e"
  shows "\<exists>e. read_cycles cycles = Inl e"
proof (cases "get_metadata cycles")
  case (Inl e)
  then show ?thesis by (simp add: read_cycles_def)
next
  case (Inr meta)
  from assms(3) [OF Inr] obtain e where "cycle2df (c_data (row ! k)) meta (int k) = Inl e" ..
  moreover have "k \<in> set [0..<length row]" using assms(2) by simp
  ultimately obtain e' where
    "emap (\<lambda>k. cycle2df (c_data (row ! k)) meta (int k)) [0..<length row] = Inl e'"
    using emap_fails [of k "[0..<length row]" "\<lambda>k. cycle2df (c_data (row ! k)) meta (int k)"]
    by blast
  then show ?thesis
    using Inr by (simp add: read_cycles_def cycle_tables_row [OF assms(1)])
qed

lemma read_cycles_first_error:
  assumes "py_index cycles 0 = Inr row" and "k < length row"
    and "get_metadata cycles = Inr meta"
    and "cycle2df (c_data (row ! k)) meta (int k) = Inl e"
    and "\<forall>j<k. \<exists>df. cycle2df (c_data (row ! j)) meta (int j) = Inr df"
  shows "read_cycles cycles = Inl e"
proof -
  have "emap (\<lambda>k. cycle2df (c_data (row ! k)) meta (int k)) [0..<length row] = Inl e"
    using assms(2,4,5)
    by (intro emap_first_error [where k = k]) simp_all
  then show ?thesis
    using assms(3) by (simp add: read_cycles_def cycle_tables_row [OF assms(1)])
qed

lemma read_nasa_cycle_fails:
  assumes "load_cycles loadmat i = Inr cycles" and "py_index cycles 0 = Inr row"
    and "k < length row" and "py_index (c_type (row ! k)) 0 = Inr t"
    and "\<And>meta s a. get_metadata_at meta (int k) = Inr (t, s, a) \<Longrightarrow>
           \<exists>e. cycle2df (c_data (row ! k)) meta (int k) = Inl e"
  shows "\<exists>e. read_nasa loadmat i = Inl e"
proof -
  have "\<exists>e. read_cycles cycles = Inl e"
  proof (rule read_cycles_abort [OF assms(2,3)])
    fix meta assume m: "get_metadata cycles = Inr meta"
    have "types meta ! k = t"
      using get_metadata_cycle(2) [OF m assms(2,3)] assms(4) by simp
    then have "get_metadata_at meta (int k) = Inr (t, start_times meta ! k, ambient_temps meta ! k)"
      using get_metadata_cycle(1) [OF m assms(2,3)] by simp
    then show "\<exists>e. cycle2df (c_data (row ! k)) meta (int k) = Inl e"
      by (rule assms(5))
  qed
  then show ?thesis using assms(1) by (simp add: read_nasa_def)
qed


subsection \<open>Metadata of all cycles\<close>

text \<open>
  C7. When \<open>_get_metadata\<close> returns, the three sequences have one entry per cycle of the
  struct array, and entry \<open>k\<close> of each is read from cycle \<open>k\<close>: its type tag, the
  timestamp converted from its date vector, and its ambient temperature.
\<close>

theorem get_metadata_parallel:
  assumes "get_metadata cycles = Inr meta"
  shows "\<exists>row. py_index cycles 0 = Inr row \<and>
           length (types meta) = length row \<and>
           length (start_times meta) = length row \<and>
           length (ambient_temps meta) = length row \<and>
           (\<forall>k<length row.
              py_index (c_type (row ! k)) 0 = Inr (types meta ! k) \<and>
              ebind (py_index (c_time (row ! k)) 0) datevec2datetime = Inr (start_times meta ! k) \<and>
              index2 (c_ambient_temperature (row ! k)) 0 0 = Inr (ambient_temps meta ! k))"
proof -
  from get_metadata_Inr_D [OF assms] obtain row where
    row: "py_index cycles 0 = Inr row"
    and t: "emap (\<lambda>c. py_index (c_type c) 0) row = Inr (types meta)"
    and s: "emap (\<lambda>c. ebind (py_index (c_time c) 0) datevec2datetime) row = Inr (start_times meta)"
    and a: "emap (\<lambda>c. index2 (c_ambient_temperature c) 0 0) row = Inr (ambient_temps meta)"
    by blast
  have "length (types meta) = length row" "length (start_times meta) = length row"
    "length (ambient_temps meta) = length row"
    using t s a by (auto dest: emap_Inr_length)
  moreover have "\<forall>k<length row.
      py_index (c_type (row ! k)) 0 = Inr (types meta ! k) \<and>
      ebind (py_index (c_time (row ! k)) 0) datevec2datetime = Inr (start_times meta ! k) \<and>
      index2 (c_ambient_temperature (row ! k)) 0 0 = Inr (ambient_temps meta ! k)"
    using get_metadata_cycle [OF assms row] by blast
  ultimately show ?thesis using row by blast
qed

theorem get_metadata_parallel_witness:
  "get_metadata [[sample_discharge, sample_impedance]] =
     Inr \<lparr>types = [''discharge'', ''impedance''],
          start_times = [sample_time,
            \<lparr>year = 2008, month = 5, day = 22, hour = 23, minute = 10, second = 0,
             microsecond = 0\<rparr>],
          ambient_temps = [24, 24]\<rparr> \<and>
   (\<exists>row. py_index [[sample_discharge, sample_impedance]] 0 = Inr row \<and> length row = 2 \<and>
      py_index (c_type (row ! 1)) 0 = Inr ''impedance'')"
proof -
  let ?m = "\<lparr>types = [''discharge'', ''impedance''],
          start_times = [sample_time,
            \<lparr>year = 2008, month = 5, day = 22, hour = 23, minute = 10, second = 0,
             microsecond = 0\<rparr>],
          ambient_temps = [24, 24]\<rparr>"
  have h: "get_metadata [[sample_discharge, sample_impedance]] = Inr ?m"
    by code_simp
  from get_metadata_parallel [OF h] obtain row where
    "py_index [[sample_discharge, sample_impedance]] 0 = Inr row"
    "length (types ?m) = length row"
    "\<forall>k<length row. py_index (c_type (row ! k)) 0 = Inr (types ?m ! k)"
    by blast
  then have "py_index [[sample_discharge, sample_impedance]] 0 = Inr row \<and> length row = 2 \<and>
      py_index (c_type (row ! 1)) 0 = Inr ''impedance''"
    by auto
  with h show ?thesis by blast
qed

subsection \<open>Metadata columns\<close>




subsection \<open>Rows and broadcast scalars\<close>




text \<open>
  The table is built exactly when the sequences of a length other than one agree on
  their length, and there is one: the constructor refuses sequences of two lengths.
\<close>

lemma cycle2df_builds:
  assumes "get_metadata_at meta i = Inr (t, s, a)" and "DATA_FIELDS t = Some flds"
    and "cycle_dict cd flds = Inr d"
    and "filter (\<lambda>m. m \<noteq> 1) (map (length \<circ> snd) d) \<noteq> []"
    and "\<forall>m \<in> set (filter (\<lambda>m. m \<noteq> 1) (map (length \<circ> snd) d)). m = n"
  shows "\<exists>df. cycle2df cd meta i = Inr df \<and> nrows df = n"
proof -
  have "DataFrame (map scalarize d) =
      Inr \<lparr>index = [0..<n], data = map (\<lambda>(c, e). (c, to_column n e)) (map scalarize d)\<rparr>"
    using assms(4,5) by (intro DataFrame_same_length) (simp_all add: array_lengths_scalarize)
  moreover have "nrows \<lparr>index = [0..<n],
      data = map (\<lambda>(c, e). (c, to_column n e)) (map scalarize d)\<rparr> = n"
    by (simp add: nrows_def)
  ultimately show ?thesis
    using assms(1-3) by (simp add: cycle2df_unfold del: map_map)
qed

lemma cycle2df_uneven:
  "cycle2df (c_data sample_uneven) (sample_meta ''discharge'') 0 =
     Inl (ValueError ''All arrays must be of the same length'')"
  by code_simp




subsection \<open>Cycles that are refused\<close>

text \<open>
  C10. When every field of a cycle has a sequence of one element, every value of the
  dict becomes a scalar and the table constructor raises ValueError: \<open>_cycle2df\<close>
  builds no table of one row, and \<open>read_nasa\<close> fails on a file with such a cycle.
\<close>

theorem all_scalar_cycle_fails:
  assumes "DATA_FIELDS t = Some flds" and "cycle_dict cd flds = Inr d"
    and "list_all (\<lambda>(c, xs). length xs = 1) d"
  shows "(get_metadata_at meta j = Inr (t, s, a) \<longrightarrow>
            cycle2df cd meta j =
              Inl (ValueError ''If using all scalar values, you must pass an index'')) \<and>
         (load_cycles loadmat i = Inr cycles \<and> py_index cycles 0 = Inr row \<and> k < length row \<and>
          py_index (c_type (row ! k)) 0 = Inr t \<and> c_data (row ! k) = cd \<longrightarrow>
            (\<exists>e. read_nasa loadmat i = Inl e))"
proof -
  have "d \<noteq> []"
    using cycle_dict_keys [OF assms(2)] DATA_FIELDS_Some(1) [OF assms(1)] by auto
  moreover have "array_lengths (map scalarize d) = []"
    using assms(3) by (auto simp: array_lengths_scalarize filter_empty_conv list_all_iff)
  ultimately have df: "DataFrame (map scalarize d) =
      Inl (ValueError ''If using all scalar values, you must pass an index'')"
    by (simp add: DataFrame_all_scalars)
  have one: "\<And>meta j s a. get_metadata_at meta j = Inr (t, s, a) \<Longrightarrow>
      cycle2df cd meta j = Inl (ValueError ''If using all scalar values, you must pass an index'')"
    using assms(1,2) df by (simp add: cycle2df_unfold)
  have "\<exists>e. read_nasa loadmat i = Inl e"
    if "load_cycles loadmat i = Inr cycles" "py_index cycles 0 = Inr row" "k < length row"
      "py_index (c_type (row ! k)) 0 = Inr t" "c_data (row ! k) = cd"
    using that(1-4)
  proof (rule read_nasa_cycle_fails)
    fix meta s a assume "get_metadata_at meta (int k) = Inr (t, s, a)"
    then show "\<exists>e. cycle2df (c_data (row ! k)) meta (int k) = Inl e"
      using one that(5) by blast
  qed
  with one show ?thesis by blast
qed

theorem all_scalar_cycle_fails_witness:
  "cycle2df (c_data sample_single) (sample_meta ''discharge'') 0 =
     Inl (ValueError ''If using all scalar values, you must pass an index'') \<and>
   (\<exists>e. read_nasa (battery_file [sample_discharge, sample_single]) 5 = Inl e)"
proof -
  let ?flds = "[''Voltage_measured'', ''Current_measured'', ''Temperature_measured'',
          ''Current_charge'', ''Voltage_charge'', ''Time'', ''Capacity'']"
  let ?d = "[(''Voltage_measured'', [1]), (''Current_measured'', [3]),
          (''Temperature_measured'', [5]), (''Current_charge'', [7]),
          (''Voltage_charge'', [9]), (''Time'', [11]), (''Capacity'', [21 / 10 :: rat])]"
  have f: "DATA_FIELDS ''discharge'' = Some ?flds"
    by code_simp
  have d: "cycle_dict (c_data sample_single) ?flds = Inr ?d"
    by code_simp
  have a: "list_all (\<lambda>(c, xs). length xs = 1) ?d"
    by simp
  have g: "get_metadata_at (sample_meta ''discharge'') 0 = Inr (''discharge'', sample_time, 24)"
    by code_simp
  have l: "load_cycles (battery_file [sample_discharge, sample_single]) 5 =
             Inr [[sample_discharge, sample_single]]"
    by code_simp
  have r: "py_index [[sample_discharge, sample_single]] 0 = Inr [sample_discharge, sample_single]"
    by code_simp
  have t: "py_index (c_type ([sample_discharge, sample_single] ! 1)) 0 = Inr ''discharge''"
    by code_simp
  show ?thesis
    using all_scalar_cycle_fails [OF f d a, of "sample_meta ''discharge''" 0 sample_time 24
        "battery_file [sample_discharge, sample_single]" 5 "[[sample_discharge, sample_single]]"
        "[sample_discharge, sample_single]" 1]
      g l r t
    by simp
qed


text \<open>
  C4. A cycle whose type tag is not \<open>charge\<close>, \<open>discharge\<close> or \<open>impedance\<close> makes the
  lookup in \<open>DATA_FIELDS\<close> raise KeyError, whatever its data block is. A file with such a
  cycle gives no table: \<open>read_nasa\<close> raises, and the exception is that KeyError when the
  metadata are extracted and the cycles before it are converted.
\<close>

theorem unknown_type_fails:
  assumes "t \<notin> {''charge'', ''discharge'', ''impedance''}"
  shows "(get_metadata_at meta j = Inr (t, s, a) \<longrightarrow> cycle2df cd meta j = Inl (KeyError t)) \<and>
         (load_cycles loadmat i = Inr cycles \<and> py_index cycles 0 = Inr row \<and> k < length row \<and>
          py_index (c_type (row ! k)) 0 = Inr t \<longrightarrow>
            (\<exists>e. read_nasa loadmat i = Inl e) \<and>
            (\<forall>m. get_metadata cycles = Inr m \<and>
                 (\<forall>j<k. \<exists>df. cycle2df (c_data (row ! j)) m (int j) = Inr df) \<longrightarrow>
                 read_nasa loadmat i = Inl (KeyError t)))"
proof -
  have none: "DATA_FIELDS t = None"
    using assms by (simp add: DATA_FIELDS_None_iff)
  have one: "\<And>cd meta j s a. get_metadata_at meta j = Inr (t, s, a) \<Longrightarrow>
      cycle2df cd meta j = Inl (KeyError t)"
    using none by (simp add: cycle2df_def)
  have two: "\<exists>e. read_nasa loadmat i = Inl e"
    if "load_cycles loadmat i = Inr cycles" "py_index cycles 0 = Inr row" "k < length row"
      "py_index (c_type (row ! k)) 0 = Inr t"
    using that
  proof (rule read_nasa_cycle_fails)
    fix meta s a assume "get_metadata_at meta (int k) = Inr (t, s, a)"
    then show "\<exists>e. cycle2df (c_data (row ! k)) meta (int k) = Inl e"
      using one by blast
  qed
  have three: "read_nasa loadmat i = Inl (KeyError t)"
    if l: "load_cycles loadmat i = Inr cycles" and r: "py_index cycles 0 = Inr row"
      and k: "k < length row" and t: "py_index (c_type (row ! k)) 0 = Inr t"
      and m: "get_metadata cycles = Inr m"
      and before: "\<forall>j<k. \<exists>df. cycle2df (c_data (row ! j)) m (int j) = Inr df"
    for m
  proof -
    have "types m ! k = t"
      using get_metadata_cycle(2) [OF m r k] t by simp
    then have "get_metadata_at m (int k) = Inr (t, start_times m ! k, ambient_temps m ! k)"
      using get_metadata_cycle(1) [OF m r k] by simp
    then have "cycle2df (c_data (row ! k)) m (int k) = Inl (KeyError t)"
      by (rule one)
    then have "read_cycles cycles = Inl (KeyError t)"
      using before by (intro read_cycles_first_error [OF r k m])
    then show ?thesis using l by (simp add: read_nasa_def)
  qed
  from one two three show ?thesis by blast
qed

theorem unknown_type_fails_witness:
  "cycle2df (c_data sample_unknown) (sample_meta ''rest'') 0 = Inl (KeyError ''rest'') \<and>
   read_nasa (battery_file [sample_discharge, sample_unknown]) 5 = Inl (KeyError ''rest'')"
proof -
  let ?m = "\<lparr>types = [''discharge'', ''rest''], start_times = [sample_time, sample_time],
             ambient_temps = [24, 24]\<rparr>"
  have u: "''rest'' \<notin> {''charge'', ''discharge'', ''impedance''}"
    by simp
  have g: "get_metadata_at (sample_meta ''rest'') 0 = Inr (''rest'', sample_time, 24)"
    by code_simp
  have l: "load_cycles (battery_file [sample_discharge, sample_unknown]) 5 =
             Inr [[sample_discharge, sample_unknown]]"
    by code_simp
  have r: "py_index [[sample_discharge, sample_unknown]] 0 = Inr [sample_discharge, sample_unknown]"
    by code_simp
  have t: "py_index (c_type ([sample_discharge, sample_unknown] ! 1)) 0 = Inr ''rest''"
    by code_simp
  have m: "get_metadata [[sample_discharge, sample_unknown]] = Inr ?m"
    by code_simp
  have c: "cycle2df (c_data ([sample_discharge, sample_unknown] ! 0)) ?m (int 0) =
             Inr sample_discharge_table"
    by code_simp
  have b: "\<forall>j<1. \<exists>df. cycle2df (c_data ([sample_discharge, sample_unknown] ! j)) ?m (int j) = Inr df"
    using c by simp
  show ?thesis
    using unknown_type_fails [OF u, of "sample_meta ''rest''" 0 sample_time 24
        "c_data sample_unknown"
        "battery_file [sample_discharge, sample_unknown]" 5 "[[sample_discharge, sample_unknown]]"
        "[sample_discharge, sample_unknown]" 1]
      g l r t m b
    by simp
qed

text \<open>
  C3, as amended. A cycle whose data block has fewer fields than the schema of its type
  makes \<open>_cycle2df\<close> raise IndexError, and \<open>read_nasa\<close> fails on a file with such a cycle.
  A block with more fields than the schema is not refused: the fields are taken by
  position, and those after the last field of the schema are never read.
\<close>

theorem field_count_mismatch:
  assumes "DATA_FIELDS t = Some flds" and "index2 cd 0 0 = Inr blk"
  shows "(length blk < length flds \<and> get_metadata_at meta j = Inr (t, s, a) \<longrightarrow>
            cycle2df cd meta j = Inl IndexError) \<and>
         (length blk < length flds \<and> load_cycles loadmat i = Inr cycles \<and>
          py_index cycles 0 = Inr row \<and> k < length row \<and>
          py_index (c_type (row ! k)) 0 = Inr t \<and> c_data (row ! k) = cd \<longrightarrow>
            (\<exists>e. read_nasa loadmat i = Inl e)) \<and>
         (length flds \<le> length blk \<and> index2 cd' 0 0 = Inr (blk @ extra) \<and>
          get_metadata_at meta j = Inr (t, s, a) \<longrightarrow>
            cycle2df cd' meta j = cycle2df cd meta j)"
proof -
  have one: "\<And>meta j s a. length blk < length flds \<Longrightarrow> get_metadata_at meta j = Inr (t, s, a) \<Longrightarrow>
      cycle2df cd meta j = Inl IndexError"
    using assms by (simp add: cycle2df_unfold cycle_dict_short)
  have two: "\<exists>e. read_nasa loadmat i = Inl e"
    if "length blk < length flds" "load_cycles loadmat i = Inr cycles" "py_index cycles 0 = Inr row"
      "k < length row" "py_index (c_type (row ! k)) 0 = Inr t" "c_data (row ! k) = cd"
    using that(2-5)
  proof (rule read_nasa_cycle_fails)
    fix meta s a assume "get_metadata_at meta (int k) = Inr (t, s, a)"
    then show "\<exists>e. cycle2df (c_data (row ! k)) meta (int k) = Inl e"
      using one that(1,6) by blast
  qed
  have three: "cycle2df cd' meta j = cycle2df cd meta j"
    if "length flds \<le> length blk" "index2 cd' 0 0 = Inr (blk @ extra)"
      "get_metadata_at meta j = Inr (t, s, a)"
    using that assms
    by (simp add: cycle2df_unfold cycle_dict_extra [where cd = cd and cd' = cd' and blk = blk])
  from one two three show ?thesis by blast
qed


theorem field_count_mismatch_witness:
  "cycle2df (c_data sample_short) (sample_meta ''discharge'') 0 = Inl IndexError \<and>
   (\<exists>e. read_nasa (battery_file [sample_discharge, sample_short]) 5 = Inl e) \<and>
   cycle2df (c_data sample_charge_long) (sample_meta ''charge'') 0 =
     cycle2df (c_data sample_charge) (sample_meta ''charge'') 0"
proof -
  let ?short = "[[[1, 2]], [[3, 4]], [[5, 6]], [[7, 8]], [[9, 10 :: rat]]]"
  let ?six = "[[[1, 2]], [[3, 4]], [[5, 6]], [[7, 8]], [[9, 10]], [[11, 12 :: rat]]]"
  have fd: "DATA_FIELDS ''discharge'' =
      Some [''Voltage_measured'', ''Current_measured'', ''Temperature_measured'',
            ''Current_charge'', ''Voltage_charge'', ''Time'', ''Capacity'']"
    by code_simp
  have fc: "DATA_FIELDS ''charge'' =
      Some [''Voltage_measured'', ''Current_measured'', ''Temperature_measured'',
            ''Current_charge'', ''Voltage_charge'', ''Time'']"
    by code_simp
  have bs: "index2 (c_data sample_short) 0 0 = Inr ?short"
    by code_simp
  have bc: "index2 (c_data sample_charge) 0 0 = Inr ?six"
    by code_simp
  have bl: "index2 (c_data sample_charge_long) 0 0 = Inr (?six @ [[[21 / 10]]])"
    by code_simp
  have gd: "get_metadata_at (sample_meta ''discharge'') 0 = Inr (''discharge'', sample_time, 24)"
    by code_simp
  have gc: "get_metadata_at (sample_meta ''charge'') 0 = Inr (''charge'', sample_time, 24)"
    by code_simp
  have l: "load_cycles (battery_file [sample_discharge, sample_short]) 5 =
             Inr [[sample_discharge, sample_short]]"
    by code_simp
  have r: "py_index [[sample_discharge, sample_short]] 0 = Inr [sample_discharge, sample_short]"
    by code_simp
  have t: "py_index (c_type ([sample_discharge, sample_short] ! 1)) 0 = Inr ''discharge''"
    by code_simp
  have short: "cycle2df (c_data sample_short) (sample_meta ''discharge'') 0 = Inl IndexError \<and>
      (\<exists>e. read_nasa (battery_file [sample_discharge, sample_short]) 5 = Inl e)"
    using field_count_mismatch [OF fd bs, of "sample_meta ''discharge''" 0 sample_time 24
        "battery_file [sample_discharge, sample_short]" 5 "[[sample_discharge, sample_short]]"
        "[sample_discharge, sample_short]" 1]
      gd l r t
    by simp
  have long: "cycle2df (c_data sample_charge_long) (sample_meta ''charge'') 0 =
      cycle2df (c_data sample_charge) (sample_meta ''charge'') 0"
    using field_count_mismatch [OF fc bc, of "sample_meta ''charge''" 0 sample_time 24
        _ _ _ _ _ "c_data sample_charge_long" "[[[21 / 10]]]"]
      gc bl
    by simp
  from short long show ?thesis by blast
qed

text \<open>
  A charge cycle whose block has seven fields, one more than the six of its schema, is
  converted like any other, and so is the file that holds it.
\<close>

theorem extra_field_accepted:
  "index2 (c_data sample_charge_long) 0 0 =
     Inr [[[1, 2]], [[3, 4]], [[5, 6]], [[7, 8]], [[9, 10]], [[11, 12]], [[21 / 10]]] \<and>
   DATA_FIELDS ''charge'' =
     Some [''Voltage_measured'', ''Current_measured'', ''Temperature_measured'',
           ''Current_charge'', ''Voltage_charge'', ''Time''] \<and>
   cycle2df (c_data sample_charge_long) (sample_meta ''charge'') 0 = Inr sample_charge_table \<and>
   read_nasa (battery_file [sample_charge_long]) 5 = Inr sample_charge_table"
  by code_simp

subsection \<open>Stacking the tables\<close>

lemma concat_nth_offset:
  "k < length xss \<Longrightarrow> r < length (xss ! k) \<Longrightarrow>
   concat xss ! (sum_list (map length (take k xss)) + r) = xss ! k ! r"
proof (induction xss arbitrary: k)
  case Nil
  then show ?case by simp
next
  case (Cons xs xss)
  show ?case
  proof (cases k)
    case 0
    with Cons.prems show ?thesis by (simp add: nth_append)
  next
    case (Suc k')
    with Cons.prems have "concat xss ! (sum_list (map length (take k' xss)) + r) = xss ! k' ! r"
      by (intro Cons.IH) simp_all
    with Suc show ?thesis by (simp add: nth_append add.assoc)
  qed
qed

lemma length_concat_offset:
  "k < length xss \<Longrightarrow> r < length (xss ! k) \<Longrightarrow>
   sum_list (map length (take k xss)) + r < length (concat xss)"
proof (induction xss arbitrary: k)
  case Nil
  then show ?case by simp
next
  case (Cons xs xss)
  show ?case
  proof (cases k)
    case 0
    with Cons.prems show ?thesis by simp
  next
    case (Suc k')
    with Cons.prems have "sum_list (map length (take k' xss)) + r < length (concat xss)"
      by (intro Cons.IH) simp_all
    with Suc show ?thesis by simp
  qed
qed

lemma set_all_columns_aux:
  "set (foldl (\<lambda>acc df. acc @ filter (\<lambda>c. c \<notin> set acc) (columns df)) acc dfs) =
   set acc \<union> (\<Union>df \<in> set dfs. set (columns df))"
  by (induction dfs arbitrary: acc) auto

lemma set_all_columns: "set (all_columns dfs) = (\<Union>df \<in> set dfs. set (columns df))"
  by (simp add: all_columns_def set_all_columns_aux)

lemma length_column_or_missing:
  assumes "wf_dataframe t"
  shows "length (column_or_missing t c) = nrows t"
proof (cases "map_of (data t) c")
  case None
  then show ?thesis by (simp add: column_or_missing_def)
next
  case (Some vs)
  then have "(c, vs) \<in> set (data t)" by (rule map_of_SomeD)
  then have "length vs = nrows t"
    using assms by (auto simp: wf_dataframe_def list_all_iff)
  with Some show ?thesis by (simp add: column_or_missing_def)
qed

lemma column_or_missing_nth:
  assumes "wf_dataframe t" and "r < nrows t"
  shows "column_or_missing t c ! r =
           (if c \<in> set (columns t) then the (cell t c r) else Missing)"
proof (cases "map_of (data t) c")
  case None
  then have "c \<notin> set (columns t)"
    by (simp add: columns_def map_of_eq_None_iff)
  with None assms(2) show ?thesis by (simp add: column_or_missing_def)
next
  case (Some vs)
  then have in_t: "(c, vs) \<in> set (data t)" by (rule map_of_SomeD)
  then have "length vs = nrows t"
    using assms(1) by (auto simp: wf_dataframe_def list_all_iff)
  moreover have "c \<in> set (columns t)"
    using in_t by (force simp: columns_def)
  ultimately show ?thesis
    using Some assms(2) by (simp add: column_or_missing_def cell_def)
qed

lemma cell_in_column:
  assumes "wf_dataframe t" and "r < nrows t" and "c \<in> set (columns t)"
  shows "cell t c r = Some (the (cell t c r))"
proof -
  have "map_of (data t) c \<noteq> None"
    using assms(3) by (simp add: columns_def map_of_eq_None_iff)
  then obtain vs where "map_of (data t) c = Some vs"
    by (cases "map_of (data t) c") simp_all
  moreover from this have "(c, vs) \<in> set (data t)" by (rule map_of_SomeD)
  then have "length vs = nrows t"
    using assms(1) by (auto simp: wf_dataframe_def list_all_iff)
  ultimately show ?thesis using assms(2) by (simp add: cell_def)
qed

lemma map_of_keyed: "map_of (map (\<lambda>c. (c, f c)) cs) c = (if c \<in> set cs then Some (f c) else None)"
  by (induction cs) auto

lemma concat_df_cell:
  assumes "concat_df dfs = Inr df" and "\<forall>t \<in> set dfs. wf_dataframe t"
    and "k < length dfs" and "r < nrows (dfs ! k)" and "c \<in> set (columns df)"
  shows "cell df c (row_offset dfs k + r) =
           (if c \<in> set (columns (dfs ! k)) then cell (dfs ! k) c r else Some Missing)"
proof -
  let ?cols = "map (\<lambda>t. column_or_missing t c) dfs"
  from assms(1) have dt: "data df = map (\<lambda>c. (c, concat (map (\<lambda>t. column_or_missing t c) dfs)))
                         (all_columns dfs)"
    by (auto simp: concat_df_def split: if_splits)
  then have "columns df = all_columns dfs"
    by (simp add: columns_def comp_def)
  with assms(5) have m: "map_of (data df) c = Some (concat ?cols)"
    by (simp add: dt map_of_keyed)
  have len: "map length (take k ?cols) = map nrows (take k dfs)"
    using assms(2) by (auto simp: take_map length_column_or_missing dest: in_set_takeD)
  have wf: "wf_dataframe (dfs ! k)" using assms(2,3) by simp
  have rk: "r < length (?cols ! k)"
    using assms(3,4) wf by (simp add: length_column_or_missing)
  have kk: "k < length ?cols" using assms(3) by simp
  have off: "row_offset dfs k = sum_list (map length (take k ?cols))"
    by (simp add: row_offset_def len)
  have "concat ?cols ! (row_offset dfs k + r) = ?cols ! k ! r"
    unfolding off using kk rk by (rule concat_nth_offset)
  moreover have "row_offset dfs k + r < length (concat ?cols)"
    unfolding off using kk rk by (rule length_concat_offset)
  ultimately have "cell df c (row_offset dfs k + r) = Some (column_or_missing (dfs ! k) c ! r)"
    using m assms(3) by (simp add: cell_def)
  then show ?thesis
    using column_or_missing_nth [OF wf assms(4), of c] cell_in_column [OF wf assms(4), of c]
    by auto
qed


lemma read_cycles_Inr_D:
  assumes "read_cycles cycles = Inr df"
  shows "\<exists>row meta tables. py_index cycles 0 = Inr row \<and> get_metadata cycles = Inr meta \<and>
           emap (\<lambda>k. cycle2df (c_data (row ! k)) meta (int k)) [0..<length row] = Inr tables \<and>
           concat_df tables = Inr df"
proof -
  from assms obtain meta tables where m: "get_metadata cycles = Inr meta"
    and t: "cycle_tables (map (map c_data) cycles) meta = Inr tables"
    and c: "concat_df tables = Inr df"
    by (auto simp: read_cycles_def ebind_Inr_iff)
  from get_metadata_Inr_D [OF m] obtain row where row: "py_index cycles 0 = Inr row"
    by blast
  show ?thesis
    using m c row t by (auto simp: cycle_tables_row [OF row])
qed

lemma row_offset_Suc:
  "k < length dfs \<Longrightarrow> row_offset dfs (Suc k) = row_offset dfs k + nrows (dfs ! k)"
  by (simp add: row_offset_def take_Suc_conv_app_nth)

text \<open>
  C6. When \<open>read_nasa\<close> returns a table, every cycle of the file has a table, and the
  result stacks them in the order of the cycles: the rows of cycle \<open>k\<close> start where
  those of the cycles before it end, the rows of cycle \<open>k + 1\<close> follow them directly,
  the index counts the rows from 0, the columns are those of all the tables, and a cell
  in a column that the table of the cycle does not have is missing.
\<close>

theorem read_nasa_order:
  assumes "read_nasa loadmat i = Inr df"
  shows "\<exists>cycles row meta tables.
           load_cycles loadmat i = Inr cycles \<and> py_index cycles 0 = Inr row \<and>
           get_metadata cycles = Inr meta \<and> length tables = length row \<and>
           (\<forall>k<length row. cycle2df (c_data (row ! k)) meta (int k) = Inr (tables ! k)) \<and>
           index df = [0..<row_offset tables (length tables)] \<and>
           set (columns df) = (\<Union>t \<in> set tables. set (columns t)) \<and>
           (\<forall>k<length tables.
              row_offset tables (Suc k) = row_offset tables k + nrows (tables ! k) \<and>
              (\<forall>r<nrows (tables ! k). \<forall>c \<in> set (columns df).
                 cell df c (row_offset tables k + r) =
                   (if c \<in> set (columns (tables ! k)) then cell (tables ! k) c r
                    else Some Missing)))"
proof -
  from assms obtain cycles where l: "load_cycles loadmat i = Inr cycles"
    and rc: "read_cycles cycles = Inr df"
    by (auto simp: read_nasa_def ebind_Inr_iff)
  from read_cycles_Inr_D [OF rc] obtain row meta tables where
    row: "py_index cycles 0 = Inr row" and m: "get_metadata cycles = Inr meta"
    and e: "emap (\<lambda>k. cycle2df (c_data (row ! k)) meta (int k)) [0..<length row] = Inr tables"
    and c: "concat_df tables = Inr df"
    by blast
  have len: "length tables = length row"
    using emap_Inr_length [OF e] by simp
  have each: "\<forall>k<length row. cycle2df (c_data (row ! k)) meta (int k) = Inr (tables ! k)"
    using emap_Inr_nth [OF e] by simp
  have wf: "\<forall>t \<in> set tables. wf_dataframe t"
  proof
    fix t assume "t \<in> set tables"
    then obtain k where "k < length row" "t = tables ! k"
      using len by (auto simp: in_set_conv_nth)
    then have "cycle2df (c_data (row ! k)) meta (int k) = Inr t"
      using each by simp
    then show "wf_dataframe t" by (rule cycle2df_wf)
  qed
  have ix: "index df = [0..<row_offset tables (length tables)]"
    using c by (auto simp: concat_df_def row_offset_def split: if_splits)
  have "columns df = all_columns tables"
    using c by (auto simp: concat_df_def columns_def comp_def split: if_splits)
  then have cols: "set (columns df) = (\<Union>t \<in> set tables. set (columns t))"
    by (simp add: set_all_columns)
  have cells: "\<forall>k<length tables.
      row_offset tables (Suc k) = row_offset tables k + nrows (tables ! k) \<and>
      (\<forall>r<nrows (tables ! k). \<forall>c \<in> set (columns df).
         cell df c (row_offset tables k + r) =
           (if c \<in> set (columns (tables ! k)) then cell (tables ! k) c r else Some Missing))"
    using concat_df_cell [OF c wf] row_offset_Suc by blast
  from l row m len each ix cols cells show ?thesis by blast
qed


theorem read_nasa_order_witness:
  "read_nasa (battery_file [sample_discharge, sample_impedance]) 5 = Inr sample_battery_table \<and>
   index sample_battery_table = [0, 1, 2, 3, 4] \<and>
   cell sample_battery_table ''Time'' 1 = Some (Num 12) \<and>
   cell sample_battery_table ''Re'' 2 = Some (Num (1 / 20)) \<and>
   cell sample_battery_table ''Capacity'' 2 = Some Missing"
proof -
  let ?f = "battery_file [sample_discharge, sample_impedance]"
  let ?m = "\<lparr>types = [''discharge'', ''impedance''],
             start_times = [sample_time, sample_impedance_time], ambient_temps = [24, 24]\<rparr>"
  have h: "read_nasa ?f 5 = Inr sample_battery_table"
    by code_simp
  have l: "load_cycles ?f 5 = Inr [[sample_discharge, sample_impedance]]"
    by code_simp
  have r: "py_index [[sample_discharge, sample_impedance]] 0 = Inr [sample_discharge, sample_impedance]"
    by code_simp
  have m: "get_metadata [[sample_discharge, sample_impedance]] = Inr ?m"
    by code_simp
  have t0: "cycle2df (c_data sample_discharge) ?m 0 = Inr sample_discharge_table"
    by code_simp
  have t1: "cycle2df (c_data sample_impedance) ?m 1 = Inr sample_impedance_table"
    by code_simp
  from read_nasa_order [OF h] show ?thesis
  proof (elim exE conjE)
  fix cycles row meta tables
  assume 1: "load_cycles ?f 5 = Inr cycles" and 2: "py_index cycles 0 = Inr row"
    and 3: "get_metadata cycles = Inr meta" and 4: "length tables = length row"
    and 5: "\<forall>k<length row. cycle2df (c_data (row ! k)) meta (int k) = Inr (tables ! k)"
    and 6: "index sample_battery_table = [0..<row_offset tables (length tables)]"
    and 7: "\<forall>k<length tables.
              row_offset tables (Suc k) = row_offset tables k + nrows (tables ! k) \<and>
              (\<forall>r<nrows (tables ! k). \<forall>c \<in> set (columns sample_battery_table).
                 cell sample_battery_table c (row_offset tables k + r) =
                   (if c \<in> set (columns (tables ! k)) then cell (tables ! k) c r
                    else Some Missing))"
  have cy: "cycles = [[sample_discharge, sample_impedance]]" using 1 l by simp
  have ro: "row = [sample_discharge, sample_impedance]" using 2 r cy by simp
  have me: "meta = ?m" using 3 m cy by simp
  have e0: "tables ! 0 = sample_discharge_table"
    and e1: "tables ! Suc 0 = sample_impedance_table"
    using 5 [rule_format, of 0] 5 [rule_format, of "Suc 0"] t0 t1 by (simp_all add: ro me)
  have len: "length tables = 2" using 4 ro by simp
  have n0: "nrows sample_discharge_table = 2" and n1: "nrows sample_impedance_table = 3"
    by code_simp+
  have o0: "row_offset tables 0 = 0"
    by (simp add: row_offset_def)
  have o1: "row_offset tables (Suc 0) = 2"
    using 7 [rule_format, of 0] len by (simp add: o0 e0 n0)
  have o2: "row_offset tables (Suc (Suc 0)) = 5"
    using 7 [rule_format, of "Suc 0"] len by (simp add: o1 e1 n1)
  have "[0..<5] = [0, 1, 2, 3, 4 :: nat]"
    by code_simp
  then have ix: "index sample_battery_table = [0, 1, 2, 3, 4]"
    using 6 o2 len by (simp add: numeral_2_eq_2)
  have cs: "''Time'' \<in> set (columns sample_battery_table)"
    "''Re'' \<in> set (columns sample_battery_table)"
    "''Capacity'' \<in> set (columns sample_battery_table)"
    by code_simp+
  have r0: "\<forall>r<2. \<forall>c \<in> set (columns sample_battery_table).
      cell sample_battery_table c (0 + r) =
        (if c \<in> set (columns sample_discharge_table) then cell sample_discharge_table c r
         else Some Missing)"
    using 7 [rule_format, of 0] len by (simp only: o0 e0 n0) simp
  have r1: "\<forall>r<3. \<forall>c \<in> set (columns sample_battery_table).
      cell sample_battery_table c (2 + r) =
        (if c \<in> set (columns sample_impedance_table) then cell sample_impedance_table c r
         else Some Missing)"
    using 7 [rule_format, of "Suc 0"] len by (simp only: o1 e1 n1) simp
  have c0: "cell sample_battery_table ''Time'' (0 + 1) =
      (if ''Time'' \<in> set (columns sample_discharge_table)
       then cell sample_discharge_table ''Time'' 1 else Some Missing)"
    using r0 [rule_format, of 1 "''Time''"] cs(1) by simp
  have c1: "cell sample_battery_table ''Re'' (2 + 0) =
      (if ''Re'' \<in> set (columns sample_impedance_table)
       then cell sample_impedance_table ''Re'' 0 else Some Missing)"
    using r1 [rule_format, of 0 "''Re''"] cs(2) by simp
  have c2: "cell sample_battery_table ''Capacity'' (2 + 0) =
      (if ''Capacity'' \<in> set (columns sample_impedance_table)
       then cell sample_impedance_table ''Capacity'' 0 else Some Missing)"
    using r1 [rule_format, of 0 "''Capacity''"] cs(3) by simp
  have v0: "(if ''Time'' \<in> set (columns sample_discharge_table)
             then cell sample_discharge_table ''Time'' 1 else Some Missing) = Some (Num 12)"
    by code_simp
  have v1: "(if ''Re'' \<in> set (columns sample_impedance_table)
             then cell sample_impedance_table ''Re'' 0 else Some Missing) = Some (Num (1 / 20))"
    by code_simp
  have v2: "(if ''Capacity'' \<in> set (columns sample_impedance_table)
             then cell sample_impedance_table ''Capacity'' 0 else Some Missing) = Some Missing"
    by code_simp
  have "cell sample_battery_table ''Time'' 1 = Some (Num 12)"
    using c0 by (simp only: v0 add_0)
  moreover have "cell sample_battery_table ''Re'' 2 = Some (Num (1 / 20))"
    using c1 by (simp only: v1 add_0_right)
  moreover have "cell sample_battery_table ''Capacity'' 2 = Some Missing"
    using c2 by (simp only: v2 add_0_right)
  ultimately show ?thesis using h ix by simp
  qed
qed

end
